theory Spec2Isabelle
  imports Main
begin

section \<open>Go values used by the registry\<close>

text \<open>
  \<^verbatim>\<open>WebHandlerFactory\<close> is an interface type. A value of it is either the nil interface
  or holds an implementation; the implementations live outside the package, so their type
  is the parameter \<open>'f\<close> and the method \<^verbatim>\<open>Binding()\<close> of an implementation is a parameter
  \<open>bnd :: 'f \<Rightarrow> string\<close> of every operation that calls it. \<open>None\<close> is the nil interface.
\<close>

type_synonym 'f WebHandlerFactory = "'f option"

text \<open>
  The run-time panics that the statements of \<^verbatim>\<open>registry.go\<close> can raise: a method call on
  the nil interface, and an assignment to an entry of a nil map.
\<close>

datatype panic = NilPointerDereference | AssignmentToNilMap

text \<open>
  The Go type \<^verbatim>\<open>error\<close> as returned by \<^verbatim>\<open>fmt.Errorf\<close>: the message of the error, and
  \<open>None\<close> for the nil error.
\<close>

type_synonym error = "string option"

text \<open>
  A Go map is a reference to a table: copying the struct that holds it (as a method with a
  value receiver does) copies the reference, not the table. The store keeps the tables;
  \<open>nxt\<close> is the next unused address. A table of type \<^verbatim>\<open>map[string]WebHandlerFactory\<close> binds
  keys to interface values, so a bound key may hold the nil interface.
\<close>

type_synonym addr = nat

type_synonym 'f gomap = "string \<rightharpoonup> 'f WebHandlerFactory"

record 'f store =
  cells :: "addr \<Rightarrow> 'f gomap"
  nxt :: addr

text \<open>
  \<^verbatim>\<open>type WebHandlerFactoryRegistryImpl struct { factories map[string]WebHandlerFactory }\<close>.
  The field is a map reference; \<open>None\<close> is the nil map of the zero-valued struct.
\<close>

record WebHandlerFactoryRegistryImpl =
  factories :: "addr option"

text \<open>The store of a program that has not made any map yet.\<close>

definition empty_store :: "'f store" where
  "empty_store = \<lparr>cells = (\<lambda>a. Map.empty), nxt = 0\<rparr>"

subsection \<open>Map primitives\<close>

text \<open>\<^verbatim>\<open>map[string]WebHandlerFactory{}\<close>: a new, empty table at an unused address.\<close>

definition make_map :: "'f store \<Rightarrow> addr \<times> 'f store" where
  "make_map s = (nxt s, s\<lparr>cells := (cells s)(nxt s := Map.empty), nxt := Suc (nxt s)\<rparr>)"

text \<open>
  \<^verbatim>\<open>v, ok := m[k]\<close>: the value and whether the key is bound. A key that is not bound, and
  every key of the nil map, reads as the zero value of the element type (the nil interface)
  with \<^verbatim>\<open>ok == false\<close>.
\<close>

definition map_index :: "'f store \<Rightarrow> addr option \<Rightarrow> string \<Rightarrow> 'f WebHandlerFactory \<times> bool" where
  "map_index s m k =
     (case m of
        None \<Rightarrow> (None, False)
      | Some a \<Rightarrow> (case cells s a k of None \<Rightarrow> (None, False) | Some v \<Rightarrow> (v, True)))"

text \<open>\<^verbatim>\<open>m[k] = v\<close>: writes the table that \<open>m\<close> refers to, and panics on the nil map.\<close>

definition map_assign ::
  "'f store \<Rightarrow> addr option \<Rightarrow> string \<Rightarrow> 'f WebHandlerFactory \<Rightarrow> panic + 'f store" where
  "map_assign s m k v =
     (case m of
        None \<Rightarrow> Inl AssignmentToNilMap
      | Some a \<Rightarrow> Inr (s\<lparr>cells := (cells s)(a := (cells s a)(k \<mapsto> v))\<rparr>))"

text \<open>\<^verbatim>\<open>factory.Binding()\<close>: dynamic dispatch, a panic on the nil interface.\<close>

definition call_Binding :: "('f \<Rightarrow> string) \<Rightarrow> 'f WebHandlerFactory \<Rightarrow> panic + string" where
  "call_Binding bnd factory =
     (case factory of None \<Rightarrow> Inl NilPointerDereference | Some f \<Rightarrow> Inr (bnd f))"

subsection \<open>Formatting\<close>

text \<open>
  \<^verbatim>\<open>fmt.Sprintf\<close> on string operands, for the one verb that the package uses, \<^verbatim>\<open>%s\<close>: the
  operand is copied in place of the verb, a verb without an operand prints
  \<^verbatim>\<open>%!s(MISSING)\<close>, and operands left over are reported after the text. Every other
  character of the format is copied as it is (the format string of \<^verbatim>\<open>Add\<close> has no other
  \<^verbatim>\<open>%\<close>).
\<close>

fun extra_operands :: "string list \<Rightarrow> string" where
  "extra_operands [] = []"
| "extra_operands [a] = ''string='' @ a"
| "extra_operands (a # b # as) = ''string='' @ a @ '', '' @ extra_operands (b # as)"

fun Sprintf :: "string \<Rightarrow> string list \<Rightarrow> string" where
  "Sprintf [] args = (if args = [] then [] else ''%!(EXTRA '' @ extra_operands args @ '')'')"
| "Sprintf [c] args = c # Sprintf [] args"
| "Sprintf (c # d # rest) args =
     (if c = CHR ''%'' \<and> d = CHR ''s''
      then (case args of
              [] \<Rightarrow> ''%!s(MISSING)'' @ Sprintf rest []
            | a # as \<Rightarrow> a @ Sprintf rest as)
      else c # Sprintf (d # rest) args)"

text \<open>\<^verbatim>\<open>fmt.Errorf\<close>: a non-nil error whose message is the formatted text.\<close>

definition Errorf :: "string \<Rightarrow> string list \<Rightarrow> error" where
  "Errorf format args = Some (Sprintf format args)"

section \<open>The registry\<close>

text \<open>
  \<^verbatim>\<open>NewWebHandlerFactoryRegistryImpl\<close> returns a pointer to a struct whose field is a new
  empty map. Nothing in the package assigns the field afterwards, so the pointer is
  modelled by the struct value.
\<close>

definition NewWebHandlerFactoryRegistryImpl ::
  "'f store \<Rightarrow> WebHandlerFactoryRegistryImpl \<times> 'f store" where
  "NewWebHandlerFactoryRegistryImpl s =
     (case make_map s of (a, s') \<Rightarrow> (\<lparr>factories = Some a\<rparr>, s'))"

text \<open>
  \<^verbatim>\<open>Add\<close>. The first statement logs the binding: its argument \<^verbatim>\<open>factory.Binding()\<close> is
  evaluated before anything else, so a nil \<open>factory\<close> panics there (the log line itself is
  not part of the model). \<^verbatim>\<open>Binding()\<close> is taken to return the same string at each of the
  calls in the body. The result is what the call returns, or the panic that ends it,
  together with the store after the call.
\<close>

definition Add ::
  "('f \<Rightarrow> string) \<Rightarrow> WebHandlerFactoryRegistryImpl \<Rightarrow> 'f WebHandlerFactory \<Rightarrow> 'f store
     \<Rightarrow> (panic + error) \<times> 'f store" where
  "Add bnd registry factory s =
     (case call_Binding bnd factory of
        Inl p \<Rightarrow> (Inl p, s)
      | Inr b \<Rightarrow>
          if snd (map_index s (factories registry) b)
          then (Inr (Errorf ''binding [%s] already registered'' [b]), s)
          else (case map_assign s (factories registry) b factory of
                  Inl p \<Rightarrow> (Inl p, s)
                | Inr s' \<Rightarrow> (Inr None, s')))"

text \<open>\<^verbatim>\<open>Get\<close>: the single-value map index; the store is handed back as the body leaves it.\<close>

definition Get ::
  "WebHandlerFactoryRegistryImpl \<Rightarrow> string \<Rightarrow> 'f store \<Rightarrow> 'f WebHandlerFactory \<times> 'f store" where
  "Get registry binding s = (fst (map_index s (factories registry) binding), s)"

text \<open>
  The test that \<^verbatim>\<open>Add\<close> makes on line 46, \<^verbatim>\<open>_, ok := registry.factories[b]\<close>: whether
  the registry's map has an entry under the binding.
\<close>

definition registered :: "WebHandlerFactoryRegistryImpl \<Rightarrow> 'f store \<Rightarrow> string \<Rightarrow> bool" where
  "registered registry s b = snd (map_index s (factories registry) b)"

section \<open>Sequences of calls on one registry\<close>

text \<open>
  A client of a registry calls \<^verbatim>\<open>Add\<close> and \<^verbatim>\<open>Get\<close> in some order. \<open>run\<close> performs a list
  of calls from left to right and collects what each call returned. A call that panics
  leaves the store as it was (both panics of \<^verbatim>\<open>Add\<close> happen before its write), so a client
  that recovers goes on from the same store.
\<close>

datatype 'f call = CallAdd "'f WebHandlerFactory" | CallGet string

datatype 'f returned = AddReturned "panic + error" | GetReturned "'f WebHandlerFactory"

definition perform ::
  "('f \<Rightarrow> string) \<Rightarrow> WebHandlerFactoryRegistryImpl \<Rightarrow> 'f call \<Rightarrow> 'f store
     \<Rightarrow> 'f returned \<times> 'f store" where
  "perform bnd registry c s =
     (case c of
        CallAdd factory \<Rightarrow>
          (case Add bnd registry factory s of (res, s') \<Rightarrow> (AddReturned res, s'))
      | CallGet b \<Rightarrow>
          (case Get registry b s of (v, s') \<Rightarrow> (GetReturned v, s')))"

fun run ::
  "('f \<Rightarrow> string) \<Rightarrow> WebHandlerFactoryRegistryImpl \<Rightarrow> 'f call list \<Rightarrow> 'f store
     \<Rightarrow> 'f returned list \<times> 'f store" where
  "run bnd registry [] s = ([], s)"
| "run bnd registry (c # cs) s =
     (case perform bnd registry c s of
        (out, s') \<Rightarrow> (case run bnd registry cs s' of (outs, s'') \<Rightarrow> (out # outs, s'')))"

text \<open>
  A call registers the binding \<open>b\<close> when it is an \<^verbatim>\<open>Add\<close> of a factory with that binding
  and it returned the nil error. \<open>registrations\<close> lists those calls of a run, in order.
\<close>

definition accepted :: "('f \<Rightarrow> string) \<Rightarrow> string \<Rightarrow> 'f call \<times> 'f returned \<Rightarrow> bool" where
  "accepted bnd b cr =
     (case cr of
        (CallAdd (Some F), AddReturned (Inr None)) \<Rightarrow> bnd F = b
      | _ \<Rightarrow> False)"

definition registrations ::
  "('f \<Rightarrow> string) \<Rightarrow> string \<Rightarrow> 'f call list \<Rightarrow> 'f returned list
     \<Rightarrow> ('f call \<times> 'f returned) list" where
  "registrations bnd b cs outs = filter (accepted bnd b) (zip cs outs)"

text \<open>The first factory with binding \<open>b\<close> that a list of calls hands to \<^verbatim>\<open>Add\<close>.\<close>

fun offered :: "('f \<Rightarrow> string) \<Rightarrow> string \<Rightarrow> 'f call list \<Rightarrow> 'f option" where
  "offered bnd b [] = None"
| "offered bnd b (CallAdd (Some F) # cs) = (if bnd F = b then Some F else offered bnd b cs)"
| "offered bnd b (c # cs) = offered bnd b cs"

section \<open>Basic facts\<close>

lemma registered_iff:
  "registered registry s b
     = (case factories registry of None \<Rightarrow> False | Some a \<Rightarrow> cells s a b \<noteq> None)"
  by (simp add: registered_def map_index_def split: option.splits)

lemma already_registered_message:
  "Sprintf ''binding [%s] already registered'' [b] = ''binding ['' @ b @ ''] already registered''"
  by simp

lemma Add_registered:
  "registered registry s (bnd F) \<Longrightarrow>
   Add bnd registry (Some F) s
     = (Inr (Some (''binding ['' @ bnd F @ ''] already registered'')), s)"
  by (simp add: Add_def call_Binding_def registered_def Errorf_def)

lemma Add_fresh_key:
  "factories registry = Some a \<Longrightarrow> \<not> registered registry s (bnd F) \<Longrightarrow>
   Add bnd registry (Some F) s
     = (Inr None, s\<lparr>cells := (cells s)(a := (cells s a)(bnd F \<mapsto> Some F))\<rparr>)"
  by (simp add: Add_def call_Binding_def registered_def map_assign_def)

lemma Add_nil_map:
  "factories registry = None \<Longrightarrow> Add bnd registry (Some F) s = (Inl AssignmentToNilMap, s)"
  by (simp add: Add_def call_Binding_def map_index_def map_assign_def)

lemma Add_nil_factory: "Add bnd registry None s = (Inl NilPointerDereference, s)"
  by (simp add: Add_def call_Binding_def)

lemma Get_eq:
  "Get registry b s =
     (case factories registry of
        None \<Rightarrow> (None, s)
      | Some a \<Rightarrow> (case cells s a b of None \<Rightarrow> (None, s) | Some v \<Rightarrow> (v, s)))"
  by (simp add: Get_def map_index_def split: option.splits)

lemma New_eq:
  "NewWebHandlerFactoryRegistryImpl s = (registry, s0) \<Longrightarrow>
   factories registry = Some (nxt s) \<and> cells s0 (nxt s) = Map.empty"
  by (auto simp: NewWebHandlerFactoryRegistryImpl_def make_map_def)

lemma New_not_registered:
  "NewWebHandlerFactoryRegistryImpl s = (registry, s0) \<Longrightarrow> \<not> registered registry s0 b"
  by (auto simp: registered_iff dest: New_eq)

subsection \<open>Runs\<close>

lemma run_Cons:
  "fst (run bnd registry (c # cs) s)
     = fst (perform bnd registry c s) # fst (run bnd registry cs (snd (perform bnd registry c s)))"
  "snd (run bnd registry (c # cs) s) = snd (run bnd registry cs (snd (perform bnd registry c s)))"
  by (simp_all split: prod.splits)

lemma run_append:
  "snd (run bnd registry (cs @ cs') s) = snd (run bnd registry cs' (snd (run bnd registry cs s)))"
proof (induction cs arbitrary: s)
  case Nil
  show ?case by simp
next
  case (Cons c cs)
  have "snd (run bnd registry ((c # cs) @ cs') s)
          = snd (run bnd registry (cs @ cs') (snd (perform bnd registry c s)))"
    by (simp only: append_Cons run_Cons)
  then show ?case by (simp only: Cons.IH run_Cons)
qed

lemma perform_Get: "perform bnd registry (CallGet k) s = (GetReturned (fst (Get registry k s)), s)"
  by (simp add: perform_def Get_def)

lemma perform_Add_nil:
  "perform bnd registry (CallAdd None) s = (AddReturned (Inl NilPointerDereference), s)"
  by (simp add: perform_def Add_nil_factory)

lemma perform_Add_registered:
  "registered registry s (bnd F) \<Longrightarrow>
   perform bnd registry (CallAdd (Some F)) s
     = (AddReturned (Inr (Some (''binding ['' @ bnd F @ ''] already registered''))), s)"
  by (simp add: perform_def Add_registered)

lemma perform_Add_fresh_key:
  "factories registry = Some a \<Longrightarrow> \<not> registered registry s (bnd F) \<Longrightarrow>
   perform bnd registry (CallAdd (Some F)) s
     = (AddReturned (Inr None), s\<lparr>cells := (cells s)(a := (cells s a)(bnd F \<mapsto> Some F))\<rparr>)"
  by (simp add: perform_def Add_fresh_key)

text \<open>
  What a run leaves under a binding in the map of a registry whose map is not nil: an
  entry that was there stays, and otherwise the entry is the first factory offered under
  that binding.
\<close>

lemma run_cells:
  assumes "factories registry = Some a"
  shows "cells (snd (run bnd registry cs s)) a b
           = (case cells s a b of
                Some v \<Rightarrow> Some v
              | None \<Rightarrow> map_option Some (offered bnd b cs))"
proof (induction cs arbitrary: s)
  case Nil
  show ?case by (simp split: option.splits)
next
  case (Cons c cs)
  show ?case
  proof (cases c)
    case (CallGet k)
    then show ?thesis using Cons.IH [of s]
      by (simp add: run_Cons perform_Get del: run.simps split: option.splits)
  next
    case (CallAdd factory)
    show ?thesis
    proof (cases factory)
      case None
      with CallAdd show ?thesis using Cons.IH [of s]
        by (simp add: run_Cons perform_Add_nil del: run.simps split: option.splits)
    next
      case (Some F)
      show ?thesis
      proof (cases "registered registry s (bnd F)")
        case True
        then have "cells s a (bnd F) \<noteq> None" using assms by (simp add: registered_iff)
        with True CallAdd Some show ?thesis
          using Cons.IH [of s]
          by (auto simp: run_Cons perform_Add_registered simp del: run.simps
              split: option.splits)
      next
        case False
        then have "cells s a (bnd F) = None" using assms by (simp add: registered_iff)
        with False CallAdd Some assms show ?thesis
          using Cons.IH [of "s\<lparr>cells := (cells s)(a := (cells s a)(bnd F \<mapsto> Some F))\<rparr>"]
          by (auto simp: run_Cons perform_Add_fresh_key simp del: run.simps
              split: option.splits)
      qed
    qed
  qed
qed

text \<open>
  The calls of a run that register a binding: none when the map had an entry before, and
  otherwise only the first \<^verbatim>\<open>Add\<close> that offers a factory under it.
\<close>

lemma run_registrations:
  assumes "factories registry = Some a"
  shows "registrations bnd b cs (fst (run bnd registry cs s))
           = (case cells s a b of
                Some v \<Rightarrow> []
              | None \<Rightarrow> (case offered bnd b cs of
                           None \<Rightarrow> []
                         | Some F \<Rightarrow> [(CallAdd (Some F), AddReturned (Inr None))]))"
proof (induction cs arbitrary: s)
  case Nil
  show ?case by (simp add: registrations_def split: option.splits)
next
  case (Cons c cs)
  show ?case
  proof (cases c)
    case (CallGet k)
    then show ?thesis using Cons.IH [of s]
      by (simp add: run_Cons perform_Get registrations_def accepted_def del: run.simps
          split: option.splits)
  next
    case (CallAdd factory)
    show ?thesis
    proof (cases factory)
      case None
      with CallAdd show ?thesis using Cons.IH [of s]
        by (simp add: run_Cons perform_Add_nil registrations_def accepted_def del: run.simps
            split: option.splits)
    next
      case (Some F)
      show ?thesis
      proof (cases "registered registry s (bnd F)")
        case True
        then have "cells s a (bnd F) \<noteq> None" using assms by (simp add: registered_iff)
        with True CallAdd Some show ?thesis
          using Cons.IH [of s]
          by (auto simp: run_Cons perform_Add_registered registrations_def accepted_def
              simp del: run.simps split: option.splits)
      next
        case False
        then have "cells s a (bnd F) = None" using assms by (simp add: registered_iff)
        with False CallAdd Some assms show ?thesis
          using Cons.IH [of "s\<lparr>cells := (cells s)(a := (cells s a)(bnd F \<mapsto> Some F))\<rparr>"]
          by (auto simp: run_Cons perform_Add_fresh_key registrations_def accepted_def
              simp del: run.simps split: option.splits)
      qed
    qed
  qed
qed

text \<open>
  On the zero-valued struct every \<^verbatim>\<open>Add\<close> panics, so a run changes nothing and registers
  nothing.
\<close>

lemma run_nil_map:
  assumes "factories registry = None"
  shows "snd (run bnd registry cs s) = s
       \<and> registrations bnd b cs (fst (run bnd registry cs s)) = []"
proof (induction cs)
  case Nil
  show ?case by (simp add: registrations_def)
next
  case (Cons c cs)
  have "snd (perform bnd registry c s) = s
      \<and> \<not> accepted bnd b (c, fst (perform bnd registry c s))"
  proof (cases c)
    case (CallGet k)
    then show ?thesis by (simp add: perform_Get accepted_def)
  next
    case (CallAdd factory)
    with assms show ?thesis
      by (cases factory) (simp_all add: perform_def Add_nil_factory Add_nil_map accepted_def)
  qed
  with Cons.IH show ?case
    by (simp add: run_Cons registrations_def del: run.simps)
qed

text \<open>
  From a registry in which nothing is registered, a run registers a binding at most once,
  and \<^verbatim>\<open>Get\<close> afterwards returns the factory of that registration, or nil.
\<close>

lemma run_from_empty:
  assumes "\<And>k. \<not> registered registry s k"
  shows "registrations bnd b cs (fst (run bnd registry cs s))
           = (case offered bnd b cs of
                None \<Rightarrow> []
              | Some F \<Rightarrow> (if factories registry = None then []
                          else [(CallAdd (Some F), AddReturned (Inr None))]))"
    and "fst (Get registry b (snd (run bnd registry cs s)))
           = (if factories registry = None then None else offered bnd b cs)"
proof -
  show "registrations bnd b cs (fst (run bnd registry cs s))
           = (case offered bnd b cs of
                None \<Rightarrow> []
              | Some F \<Rightarrow> (if factories registry = None then []
                          else [(CallAdd (Some F), AddReturned (Inr None))]))"
  proof (cases "factories registry")
    case None
    then show ?thesis by (simp add: run_nil_map split: option.splits)
  next
    case (Some a)
    with assms [of b] have "cells s a b = None" by (simp add: registered_iff)
    with Some show ?thesis by (simp add: run_registrations [OF Some] split: option.splits)
  qed
  show "fst (Get registry b (snd (run bnd registry cs s)))
           = (if factories registry = None then None else offered bnd b cs)"
  proof (cases "factories registry")
    case None
    then show ?thesis by (simp add: Get_eq)
  next
    case (Some a)
    with assms [of b] have "cells s a b = None" by (simp add: registered_iff)
    with Some show ?thesis
      by (simp add: Get_eq run_cells [OF Some] split: option.splits)
  qed
qed

lemma Get_stable:
  assumes "fst (Get registry b s) = Some F"
  shows "fst (Get registry b (snd (run bnd registry cs s))) = Some F"
proof (cases "factories registry")
  case None
  with assms show ?thesis by (simp add: Get_eq)
next
  case (Some a)
  with assms have "cells s a b = Some (Some F)"
    by (simp add: Get_eq split: option.splits)
  with Some show ?thesis by (simp add: Get_eq run_cells [OF Some])
qed

section \<open>Properties of the registry\<close>

lemmas registry_defs =
  NewWebHandlerFactoryRegistryImpl_def make_map_def empty_store_def Add_def Get_def
  call_Binding_def map_index_def map_assign_def Errorf_def registered_def
  perform_def registrations_def accepted_def

text \<open>
  Claim C1. For every registry and every two factories \<open>F\<close> and \<open>F'\<close> with the same
  binding: after \<^verbatim>\<open>Add(F)\<close> has succeeded, a following \<^verbatim>\<open>Add(F')\<close> returns an error and
  leaves the store, and so the registry's map, as it was, and \<^verbatim>\<open>Get\<close> on that binding
  still returns \<open>F\<close>.
\<close>

theorem Add_same_binding_rejected:
  assumes "Add bnd registry (Some F) s = (Inr None, sa)" and "bnd F' = bnd F"
  shows "(\<exists>msg. Add bnd registry (Some F') sa = (Inr (Some msg), sa))
       \<and> Get registry (bnd F) (snd (Add bnd registry (Some F') sa)) = (Some F, sa)"
proof (cases "factories registry")
  case None
  with assms(1) show ?thesis by (simp add: Add_nil_map)
next
  case (Some a)
  show ?thesis
  proof (cases "registered registry s (bnd F)")
    case True
    with assms(1) show ?thesis by (simp add: Add_registered)
  next
    case False
    with Some assms(1)
    have sa: "sa = s\<lparr>cells := (cells s)(a := (cells s a)(bnd F \<mapsto> Some F))\<rparr>"
      by (simp add: Add_fresh_key)
    then have "registered registry sa (bnd F')"
      using Some assms(2) by (simp add: registered_iff)
    then have "Add bnd registry (Some F') sa
                 = (Inr (Some (''binding ['' @ bnd F' @ ''] already registered'')), sa)"
      by (rule Add_registered)
    moreover have "Get registry (bnd F) sa = (Some F, sa)"
      using Some sa by (simp add: Get_eq)
    ultimately show ?thesis by simp
  qed
qed

theorem Add_same_binding_rejected_witness:
  "Add fst \<lparr>factories = Some 0\<rparr> (Some (''rest-v1'', 1::nat)) empty_store
     = (Inr None, snd (Add fst \<lparr>factories = Some 0\<rparr> (Some (''rest-v1'', 1::nat)) empty_store))
   \<and> fst (''rest-v1'', 2::nat) = fst (''rest-v1'', 1::nat)
   \<and> fst (Add fst \<lparr>factories = Some 0\<rparr> (Some (''rest-v1'', 2::nat))
        (snd (Add fst \<lparr>factories = Some 0\<rparr> (Some (''rest-v1'', 1::nat)) empty_store)))
       = Inr (Some ''binding [rest-v1] already registered'')
   \<and> fst (Get \<lparr>factories = Some 0\<rparr> ''rest-v1''
        (snd (Add fst \<lparr>factories = Some 0\<rparr> (Some (''rest-v1'', 2::nat))
          (snd (Add fst \<lparr>factories = Some 0\<rparr> (Some (''rest-v1'', 1::nat)) empty_store)))))
       = Some (''rest-v1'', 1::nat)"
  using Add_same_binding_rejected [where bnd = fst and registry = "\<lparr>factories = Some 0\<rparr>"
      and F = "(''rest-v1'', 1::nat)" and F' = "(''rest-v1'', 2::nat)" and s = empty_store
      and sa = "snd (Add fst \<lparr>factories = Some 0\<rparr> (Some (''rest-v1'', 1::nat)) empty_store)"]
  by (simp add: registry_defs)

text \<open>
  Claim C2. Take a registry in which nothing is registered (one just made by
  \<^verbatim>\<open>NewWebHandlerFactoryRegistryImpl\<close>, or the zero-valued struct). After any sequence of
  \<^verbatim>\<open>Add\<close> and \<^verbatim>\<open>Get\<close> calls on it, \<^verbatim>\<open>Get\<close> returns the nil interface for a binding
  exactly when no call has registered that binding. So nil is an explicit mark of absence:
  it is what \<^verbatim>\<open>Get\<close> returns for every binding that was never registered, and it is never
  returned in place of a registered factory.
\<close>

theorem Get_nil_iff_never_registered:
  assumes "\<And>k. \<not> registered registry s k"
  shows "fst (Get registry b (snd (run bnd registry cs s))) = None
           \<longleftrightarrow> registrations bnd b cs (fst (run bnd registry cs s)) = []"
  by (simp add: run_from_empty [OF assms] split: option.splits)

theorem Get_nil_iff_never_registered_witness:
  "(\<forall>k. \<not> registered \<lparr>factories = Some 0\<rparr>
            (snd (NewWebHandlerFactoryRegistryImpl (empty_store :: (string \<times> nat) store))) k)
   \<and> registrations fst ''rest-v2'' [CallAdd (Some (''rest-v1'', 1::nat)), CallGet ''rest-v1'']
        (fst (run fst \<lparr>factories = Some 0\<rparr> [CallAdd (Some (''rest-v1'', 1::nat)), CallGet ''rest-v1'']
           (snd (NewWebHandlerFactoryRegistryImpl empty_store)))) = []
   \<and> fst (Get \<lparr>factories = Some 0\<rparr> ''rest-v2''
        (snd (run fst \<lparr>factories = Some 0\<rparr> [CallAdd (Some (''rest-v1'', 1::nat)), CallGet ''rest-v1'']
           (snd (NewWebHandlerFactoryRegistryImpl empty_store))))) = None
   \<and> registrations fst ''rest-v1'' [CallAdd (Some (''rest-v1'', 1::nat)), CallGet ''rest-v1'']
        (fst (run fst \<lparr>factories = Some 0\<rparr> [CallAdd (Some (''rest-v1'', 1::nat)), CallGet ''rest-v1'']
           (snd (NewWebHandlerFactoryRegistryImpl empty_store))))
       = [(CallAdd (Some (''rest-v1'', 1::nat)), AddReturned (Inr None))]
   \<and> fst (Get \<lparr>factories = Some 0\<rparr> ''rest-v1''
        (snd (run fst \<lparr>factories = Some 0\<rparr> [CallAdd (Some (''rest-v1'', 1::nat)), CallGet ''rest-v1'']
           (snd (NewWebHandlerFactoryRegistryImpl empty_store))))) = Some (''rest-v1'', 1::nat)"
  using Get_nil_iff_never_registered [where registry = "\<lparr>factories = Some 0\<rparr>"
      and s = "snd (NewWebHandlerFactoryRegistryImpl (empty_store :: (string \<times> nat) store))"
      and bnd = fst and b = "''rest-v2''"
      and cs = "[CallAdd (Some (''rest-v1'', 1::nat)), CallGet ''rest-v1'']"]
  by (simp add: registry_defs)

text \<open>
  Claim C3, amended. For every registry whose \<open>factories\<close> map is not nil (as
  \<^verbatim>\<open>NewWebHandlerFactoryRegistryImpl\<close> makes it), in every state of that map, and for every
  factory \<open>F\<close>: \<^verbatim>\<open>Add(F)\<close> returns an error if and only if the map already has an entry
  under \<open>F\<close>'s binding; when it has none, \<^verbatim>\<open>Add\<close> returns the nil error and stores \<open>F\<close>
  under its binding, and \<^verbatim>\<open>Get\<close> on that binding then returns \<open>F\<close>.
\<close>

theorem Add_error_iff_registered:
  assumes "factories registry = Some a"
  shows "((\<exists>msg. fst (Add bnd registry (Some F) s) = Inr (Some msg))
            \<longleftrightarrow> registered registry s (bnd F))
       \<and> (\<not> registered registry s (bnd F) \<longrightarrow>
            fst (Add bnd registry (Some F) s) = Inr None
          \<and> cells (snd (Add bnd registry (Some F) s)) a (bnd F) = Some (Some F)
          \<and> fst (Get registry (bnd F) (snd (Add bnd registry (Some F) s))) = Some F)"
proof (cases "registered registry s (bnd F)")
  case True
  then show ?thesis by (simp add: Add_registered)
next
  case False
  with assms show ?thesis by (simp add: Add_fresh_key Get_eq)
qed

theorem Add_error_iff_registered_witness:
  "factories \<lparr>factories = Some 0\<rparr> = Some 0
   \<and> \<not> registered \<lparr>factories = Some 0\<rparr> (empty_store :: (string \<times> nat) store)
         (fst (''rest-v1'', 1::nat))
   \<and> fst (Add fst \<lparr>factories = Some 0\<rparr> (Some (''rest-v1'', 1::nat)) empty_store) = Inr None
   \<and> fst (Get \<lparr>factories = Some 0\<rparr> ''rest-v1''
        (snd (Add fst \<lparr>factories = Some 0\<rparr> (Some (''rest-v1'', 1::nat)) empty_store)))
       = Some (''rest-v1'', 1::nat)"
  using Add_error_iff_registered [where registry = "\<lparr>factories = Some 0\<rparr>" and a = 0
      and bnd = fst and F = "(''rest-v1'', 1::nat)" and s = empty_store]
  by (simp add: registry_defs)

text \<open>
  Claim C3 as first stated, for every registry state, fails on the zero value of the
  struct, \<^verbatim>\<open>WebHandlerFactoryRegistryImpl{}\<close>, whose map is nil: nothing is registered
  under the binding, and \<^verbatim>\<open>Add\<close> neither returns an error nor stores the factory. It
  panics at the assignment on line 50, and \<^verbatim>\<open>Get\<close> still returns nil.
\<close>

theorem Add_zero_registry_panics:
  "\<not> registered \<lparr>factories = None\<rparr> (empty_store :: (string \<times> nat) store)
       (fst (''rest-v1'', 1::nat))
   \<and> Add fst \<lparr>factories = None\<rparr> (Some (''rest-v1'', 1::nat)) empty_store
       = (Inl AssignmentToNilMap, empty_store)
   \<and> fst (Get \<lparr>factories = None\<rparr> ''rest-v1''
        (snd (Add fst \<lparr>factories = None\<rparr> (Some (''rest-v1'', 1::nat)) empty_store)))
       = (None :: (string \<times> nat) option)"
  by (simp add: registry_defs)

text \<open>
  Claim C4. For every two factories with different bindings added to a registry just made
  by \<^verbatim>\<open>NewWebHandlerFactoryRegistryImpl\<close>, both \<^verbatim>\<open>Add\<close> calls return the nil error, and
  \<^verbatim>\<open>Get\<close> on each of the two bindings returns the factory added under that binding.
\<close>

theorem Add_distinct_bindings:
  assumes "NewWebHandlerFactoryRegistryImpl s = (registry, sn)"
    and "Add bnd registry (Some F) sn = (res, sa)"
    and "Add bnd registry (Some F') sa = (res', sb)"
    and "bnd F \<noteq> bnd F'"
  shows "res = Inr None \<and> res' = Inr None
       \<and> fst (Get registry (bnd F) sb) = Some F
       \<and> fst (Get registry (bnd F') sb) = Some F'"
proof -
  from assms(1) have a: "factories registry = Some (nxt s)"
    and fresh: "\<not> registered registry sn (bnd F)"
    by (simp_all add: New_eq New_not_registered)
  from assms(1) have e: "cells sn (nxt s) (bnd F') = None"
    by (simp add: New_eq)
  from Add_fresh_key [where bnd = bnd and F = F, OF a fresh] assms(2)
  have res: "res = Inr None"
    and sa: "sa = sn\<lparr>cells := (cells sn)(nxt s := (cells sn (nxt s))(bnd F \<mapsto> Some F))\<rparr>"
    by simp_all
  from sa a e assms(4) have fresh': "\<not> registered registry sa (bnd F')"
    by (simp add: registered_iff)
  from Add_fresh_key [where bnd = bnd and F = F', OF a fresh'] assms(3)
  have res': "res' = Inr None"
    and sb: "sb = sa\<lparr>cells := (cells sa)(nxt s := (cells sa (nxt s))(bnd F' \<mapsto> Some F'))\<rparr>"
    by simp_all
  from sa sb a assms(4) have "fst (Get registry (bnd F) sb) = Some F"
    and "fst (Get registry (bnd F') sb) = Some F'"
    by (simp_all add: Get_eq)
  with res res' show ?thesis by simp
qed

theorem Add_distinct_bindings_witness:
  "NewWebHandlerFactoryRegistryImpl (empty_store :: (string \<times> nat) store)
     = (\<lparr>factories = Some 0\<rparr>, snd (NewWebHandlerFactoryRegistryImpl empty_store))
   \<and> fst (''rest-v1'', 1::nat) \<noteq> fst (''rest-v2'', 2::nat)
   \<and> fst (Add fst \<lparr>factories = Some 0\<rparr> (Some (''rest-v1'', 1::nat))
        (snd (NewWebHandlerFactoryRegistryImpl empty_store))) = Inr None
   \<and> fst (Add fst \<lparr>factories = Some 0\<rparr> (Some (''rest-v2'', 2::nat))
        (snd (Add fst \<lparr>factories = Some 0\<rparr> (Some (''rest-v1'', 1::nat))
           (snd (NewWebHandlerFactoryRegistryImpl empty_store))))) = Inr None
   \<and> fst (Get \<lparr>factories = Some 0\<rparr> ''rest-v1''
        (snd (Add fst \<lparr>factories = Some 0\<rparr> (Some (''rest-v2'', 2::nat))
           (snd (Add fst \<lparr>factories = Some 0\<rparr> (Some (''rest-v1'', 1::nat))
              (snd (NewWebHandlerFactoryRegistryImpl empty_store)))))))
       = Some (''rest-v1'', 1::nat)
   \<and> fst (Get \<lparr>factories = Some 0\<rparr> ''rest-v2''
        (snd (Add fst \<lparr>factories = Some 0\<rparr> (Some (''rest-v2'', 2::nat))
           (snd (Add fst \<lparr>factories = Some 0\<rparr> (Some (''rest-v1'', 1::nat))
              (snd (NewWebHandlerFactoryRegistryImpl empty_store)))))))
       = Some (''rest-v2'', 2::nat)"
  using Add_distinct_bindings [where s = "empty_store :: (string \<times> nat) store"
      and registry = "\<lparr>factories = Some 0\<rparr>"
      and sn = "snd (NewWebHandlerFactoryRegistryImpl empty_store)"
      and bnd = fst and F = "(''rest-v1'', 1::nat)" and F' = "(''rest-v2'', 2::nat)"
      and res = "fst (Add fst \<lparr>factories = Some 0\<rparr> (Some (''rest-v1'', 1::nat))
        (snd (NewWebHandlerFactoryRegistryImpl empty_store)))"
      and sa = "snd (Add fst \<lparr>factories = Some 0\<rparr> (Some (''rest-v1'', 1::nat))
        (snd (NewWebHandlerFactoryRegistryImpl empty_store)))"
      and res' = "fst (Add fst \<lparr>factories = Some 0\<rparr> (Some (''rest-v2'', 2::nat))
        (snd (Add fst \<lparr>factories = Some 0\<rparr> (Some (''rest-v1'', 1::nat))
           (snd (NewWebHandlerFactoryRegistryImpl empty_store)))))"
      and sb = "snd (Add fst \<lparr>factories = Some 0\<rparr> (Some (''rest-v2'', 2::nat))
        (snd (Add fst \<lparr>factories = Some 0\<rparr> (Some (''rest-v1'', 1::nat))
           (snd (NewWebHandlerFactoryRegistryImpl empty_store)))))"]
  by (simp add: registry_defs)

text \<open>
  Claim C5. Take a registry in which nothing is registered (one just made by
  \<^verbatim>\<open>NewWebHandlerFactoryRegistryImpl\<close>, or the zero-valued struct). In every state that it
  reaches by a sequence of \<^verbatim>\<open>Add\<close> and \<^verbatim>\<open>Get\<close> calls, each binding has been registered by
  at most one call, so it maps to at most one factory; and once \<^verbatim>\<open>Get\<close> returns a factory
  for a binding, it returns the same factory after any further calls.
\<close>

theorem registry_binding_unique_and_stable:
  assumes "\<And>k. \<not> registered registry s k"
  shows "length (registrations bnd b cs (fst (run bnd registry cs s))) \<le> 1
       \<and> (fst (Get registry b (snd (run bnd registry cs s))) = Some F
            \<longrightarrow> fst (Get registry b (snd (run bnd registry (cs @ cs') s))) = Some F)"
proof -
  have "length (registrations bnd b cs (fst (run bnd registry cs s))) \<le> 1"
    by (simp add: run_from_empty [OF assms] split: option.splits)
  moreover have "fst (Get registry b (snd (run bnd registry (cs @ cs') s))) = Some F"
    if "fst (Get registry b (snd (run bnd registry cs s))) = Some F"
    using Get_stable [OF that] by (simp add: run_append)
  ultimately show ?thesis by blast
qed

theorem registry_binding_unique_and_stable_witness:
  "(\<forall>k. \<not> registered \<lparr>factories = Some 0\<rparr>
            (snd (NewWebHandlerFactoryRegistryImpl (empty_store :: (string \<times> nat) store))) k)
   \<and> registrations fst ''rest-v1''
        [CallAdd (Some (''rest-v1'', 1::nat)), CallAdd (Some (''rest-v1'', 2::nat))]
        (fst (run fst \<lparr>factories = Some 0\<rparr>
                [CallAdd (Some (''rest-v1'', 1::nat)), CallAdd (Some (''rest-v1'', 2::nat))]
                (snd (NewWebHandlerFactoryRegistryImpl empty_store))))
       = [(CallAdd (Some (''rest-v1'', 1::nat)), AddReturned (Inr None))]
   \<and> fst (Get \<lparr>factories = Some 0\<rparr> ''rest-v1''
        (snd (run fst \<lparr>factories = Some 0\<rparr>
                [CallAdd (Some (''rest-v1'', 1::nat)), CallAdd (Some (''rest-v1'', 2::nat))]
                (snd (NewWebHandlerFactoryRegistryImpl empty_store)))))
       = Some (''rest-v1'', 1::nat)
   \<and> fst (Get \<lparr>factories = Some 0\<rparr> ''rest-v1''
        (snd (run fst \<lparr>factories = Some 0\<rparr>
                ([CallAdd (Some (''rest-v1'', 1::nat)), CallAdd (Some (''rest-v1'', 2::nat))]
                 @ [CallAdd (Some (''rest-v1'', 3::nat)), CallAdd None, CallGet ''rest-v1''])
                (snd (NewWebHandlerFactoryRegistryImpl empty_store)))))
       = Some (''rest-v1'', 1::nat)"
  using registry_binding_unique_and_stable [where registry = "\<lparr>factories = Some 0\<rparr>"
      and s = "snd (NewWebHandlerFactoryRegistryImpl (empty_store :: (string \<times> nat) store))"
      and bnd = fst and b = "''rest-v1''" and F = "(''rest-v1'', 1::nat)"
      and cs = "[CallAdd (Some (''rest-v1'', 1::nat)), CallAdd (Some (''rest-v1'', 2::nat))]"
      and cs' = "[CallAdd (Some (''rest-v1'', 3::nat)), CallAdd None, CallGet ''rest-v1'']"]
  by (simp add: registry_defs)

text \<open>
  Claim C6. When \<^verbatim>\<open>Add\<close> is called with a factory whose binding \<open>B\<close> is already
  registered, the error it returns has the message \<^verbatim>\<open>binding [B] already registered\<close>; for
  the binding \<^verbatim>\<open>rest-v1\<close> the message is exactly \<^verbatim>\<open>binding [rest-v1] already registered\<close>.
\<close>

theorem Add_duplicate_message:
  assumes "registered registry s (bnd F)"
  shows "fst (Add bnd registry (Some F) s)
           = Inr (Some (''binding ['' @ bnd F @ ''] already registered''))
       \<and> (bnd F = ''rest-v1'' \<longrightarrow>
            fst (Add bnd registry (Some F) s)
              = Inr (Some ''binding [rest-v1] already registered''))"
proof -
  from assms have "fst (Add bnd registry (Some F) s)
                     = Inr (Some (''binding ['' @ bnd F @ ''] already registered''))"
    by (simp add: Add_registered)
  then show ?thesis by simp
qed

theorem Add_duplicate_message_witness:
  "registered \<lparr>factories = Some 0\<rparr>
       (snd (Add fst \<lparr>factories = Some 0\<rparr> (Some (''rest-v1'', 1::nat)) empty_store))
       (fst (''rest-v1'', 2::nat))
   \<and> fst (''rest-v1'', 2::nat) = ''rest-v1''
   \<and> fst (Add fst \<lparr>factories = Some 0\<rparr> (Some (''rest-v1'', 2::nat))
        (snd (Add fst \<lparr>factories = Some 0\<rparr> (Some (''rest-v1'', 1::nat)) empty_store)))
       = Inr (Some ''binding [rest-v1] already registered'')"
  using Add_duplicate_message [where registry = "\<lparr>factories = Some 0\<rparr>" and bnd = fst
      and F = "(''rest-v1'', 2::nat)"
      and s = "snd (Add fst \<lparr>factories = Some 0\<rparr> (Some (''rest-v1'', 1::nat)) empty_store)"]
  by (simp add: registry_defs)

text \<open>
  Claim C7. \<^verbatim>\<open>Get\<close> is a lookup without side effects: for every registry, store and
  binding, the store after \<^verbatim>\<open>Get\<close>, and with it the registry's map, is the store before
  it, and a second \<^verbatim>\<open>Get\<close> of the same binding returns what the first returned.
\<close>

theorem Get_pure:
  "snd (Get registry b s) = s
   \<and> cells (snd (Get registry b s)) = cells s
   \<and> Get registry b (snd (Get registry b s)) = Get registry b s"
  by (simp add: Get_def)

text \<open>
  Claim C9. A registry just made by \<^verbatim>\<open>NewWebHandlerFactoryRegistryImpl\<close> is empty: \<^verbatim>\<open>Get\<close>
  returns nil for every binding, and the first \<^verbatim>\<open>Add\<close> of any factory returns the nil
  error.
\<close>

theorem New_registry_empty:
  assumes "NewWebHandlerFactoryRegistryImpl s = (registry, sn)"
  shows "fst (Get registry b sn) = None \<and> fst (Add bnd registry (Some F) sn) = Inr None"
proof -
  from assms have a: "factories registry = Some (nxt s)" and e: "cells sn (nxt s) b = None"
    and fresh: "\<not> registered registry sn (bnd F)"
    by (simp_all add: New_eq New_not_registered)
  from a e have "fst (Get registry b sn) = None" by (simp add: Get_eq)
  moreover from Add_fresh_key [where bnd = bnd and F = F, OF a fresh] have "fst (Add bnd registry (Some F) sn) = Inr None"
    by simp
  ultimately show ?thesis by simp
qed

theorem New_registry_empty_witness:
  "NewWebHandlerFactoryRegistryImpl (empty_store :: (string \<times> nat) store)
     = (\<lparr>factories = Some 0\<rparr>, snd (NewWebHandlerFactoryRegistryImpl empty_store))
   \<and> fst (Get \<lparr>factories = Some 0\<rparr> ''rest-v1''
        (snd (NewWebHandlerFactoryRegistryImpl (empty_store :: (string \<times> nat) store)))) = None
   \<and> fst (Add fst \<lparr>factories = Some 0\<rparr> (Some (''rest-v1'', 1::nat))
        (snd (NewWebHandlerFactoryRegistryImpl empty_store))) = Inr None"
  using New_registry_empty [where s = "empty_store :: (string \<times> nat) store"
      and registry = "\<lparr>factories = Some 0\<rparr>"
      and sn = "snd (NewWebHandlerFactoryRegistryImpl empty_store)"
      and b = "''rest-v1''" and bnd = fst and F = "(''rest-v1'', 1::nat)"]
  by (simp add: registry_defs)

text \<open>
  Claim C10. \<^verbatim>\<open>Add\<close> puts no condition on the binding string: on a registry with a map
  that has no entry under the empty string, a factory whose binding is the empty string is
  stored under it like under any other key, \<^verbatim>\<open>Get("")\<close> then returns that factory, and a
  second \<^verbatim>\<open>Add\<close> of a factory with the empty binding is refused as a duplicate.
\<close>

theorem Add_empty_binding:
  assumes "factories registry = Some a" and "\<not> registered registry s ''''"
    and "bnd F = ''''" and "bnd F' = ''''"
  shows "fst (Add bnd registry (Some F) s) = Inr None
       \<and> fst (Get registry '''' (snd (Add bnd registry (Some F) s))) = Some F
       \<and> Add bnd registry (Some F') (snd (Add bnd registry (Some F) s))
           = (Inr (Some ''binding [] already registered''), snd (Add bnd registry (Some F) s))"
proof -
  from assms(2,3) have fresh: "\<not> registered registry s (bnd F)" by simp
  let ?sa = "s\<lparr>cells := (cells s)(a := (cells s a)(bnd F \<mapsto> Some F))\<rparr>"
  from Add_fresh_key [where bnd = bnd and F = F, OF assms(1) fresh]
  have add: "Add bnd registry (Some F) s = (Inr None, ?sa)" .
  from assms(1,3,4) have "registered registry ?sa (bnd F')"
    by (simp add: registered_iff)
  from Add_registered [where bnd = bnd and F = F', OF this] assms(4)
  have "Add bnd registry (Some F') ?sa = (Inr (Some ''binding [] already registered''), ?sa)"
    by simp
  moreover from assms(1,3) have "fst (Get registry '''' ?sa) = Some F"
    by (simp add: Get_eq)
  ultimately show ?thesis by (simp add: add)
qed

theorem Add_empty_binding_witness:
  "factories \<lparr>factories = Some 0\<rparr> = Some 0
   \<and> \<not> registered \<lparr>factories = Some 0\<rparr> (empty_store :: (string \<times> nat) store) ''''
   \<and> fst ('''', 1::nat) = '''' \<and> fst ('''', 2::nat) = ''''
   \<and> fst (Add fst \<lparr>factories = Some 0\<rparr> (Some ('''', 1::nat)) empty_store) = Inr None
   \<and> fst (Get \<lparr>factories = Some 0\<rparr> ''''
        (snd (Add fst \<lparr>factories = Some 0\<rparr> (Some ('''', 1::nat)) empty_store)))
       = Some ('''', 1::nat)
   \<and> fst (Add fst \<lparr>factories = Some 0\<rparr> (Some ('''', 2::nat))
        (snd (Add fst \<lparr>factories = Some 0\<rparr> (Some ('''', 1::nat)) empty_store)))
       = Inr (Some ''binding [] already registered'')"
  using Add_empty_binding [where registry = "\<lparr>factories = Some 0\<rparr>" and a = 0
      and s = "empty_store :: (string \<times> nat) store" and bnd = fst
      and F = "('''', 1::nat)" and F' = "('''', 2::nat)"]
  by (simp add: registry_defs)

end
